theory Spec2Isabelle
  imports Complex_Main
begin

section \<open>Payroll computation engine of the HR admin portal\<close>

text \<open>
  A shallow embedding of \<^verbatim>\<open>services/payroll_agent.py\<close> (class \<^verbatim>\<open>PayrollAgent\<close>) and of
  \<^verbatim>\<open>PayrollService.upload_excel\<close> in \<^verbatim>\<open>services/payroll_service.py\<close>.

  Conventions of the embedding:
  \<^item> Python \<^verbatim>\<open>str\<close> values are ASCII strings; \<^verbatim>\<open>str.lower\<close> maps \<^verbatim>\<open>A-Z\<close> to \<^verbatim>\<open>a-z\<close>.
  \<^item> Python numbers are exact rationals extended with \<^verbatim>\<open>nan\<close>; binary rounding, overflow
    and infinities of IEEE doubles are outside the model.
  \<^item> A raised exception is the \<open>Inl\<close> branch of a sum; the exception classes are the
    constructors of \<open>error\<close>.
  \<^item> A pandas data frame is its list of column labels and its list of rows, column labels
    being text; a row (a pandas \<^verbatim>\<open>Series\<close>) is the list of its labelled cells, in column order.
\<close>

subsection \<open>Strings\<close>

definition lower_char :: "char \<Rightarrow> char" where
  "lower_char c =
     (case map_of (zip ''ABCDEFGHIJKLMNOPQRSTUVWXYZ'' ''abcdefghijklmnopqrstuvwxyz'') c of
        Some d \<Rightarrow> d
      | None \<Rightarrow> c)"

definition lower :: "string \<Rightarrow> string" where
  "lower s = map lower_char s"

fun startswith :: "string \<Rightarrow> string \<Rightarrow> bool" where
  "startswith s [] = True"
| "startswith [] (p # ps) = False"
| "startswith (c # cs) (p # ps) = (c = p \<and> startswith cs ps)"

text \<open>\<open>str_in sub s\<close> is Python's \<^verbatim>\<open>sub in s\<close> on strings.\<close>

fun str_in :: "string \<Rightarrow> string \<Rightarrow> bool" where
  "str_in sub [] = (sub = [])"
| "str_in sub (c # cs) = (startswith (c # cs) sub \<or> str_in sub cs)"

text \<open>\<^verbatim>\<open>s.replace(' ', '_')\<close>\<close>

definition replace_spaces :: "string \<Rightarrow> string" where
  "replace_spaces s = map (\<lambda>c. if c = CHR '' '' then CHR ''_'' else c) s"

subsection \<open>Numbers, cells and exceptions\<close>

datatype pynum = Fin rat | NaN

datatype error =
    ValueError string
  | KeyError string
  | TypeError string
  | ZeroDivisionError

text \<open>A spreadsheet cell as pandas delivers it: an integer, a float (an empty cell is the
  float \<^verbatim>\<open>nan\<close>) or text.\<close>

datatype cell = CInt int | CFloat pynum | CStr string

type_synonym row = "(string \<times> cell) list"

fun num_add :: "pynum \<Rightarrow> pynum \<Rightarrow> pynum" where
  "num_add (Fin a) (Fin b) = Fin (a + b)"
| "num_add _ _ = NaN"

fun num_sub :: "pynum \<Rightarrow> pynum \<Rightarrow> pynum" where
  "num_sub (Fin a) (Fin b) = Fin (a - b)"
| "num_sub _ _ = NaN"

fun num_mul :: "pynum \<Rightarrow> pynum \<Rightarrow> pynum" where
  "num_mul (Fin a) (Fin b) = Fin (a * b)"
| "num_mul _ _ = NaN"

text \<open>Python's \<^verbatim>\<open>/\<close> raises \<^verbatim>\<open>ZeroDivisionError\<close> on a zero divisor, whatever the dividend.\<close>

fun num_div :: "pynum \<Rightarrow> pynum \<Rightarrow> error + pynum" where
  "num_div a (Fin b) =
     (if b = 0 then Inl ZeroDivisionError
      else case a of Fin x \<Rightarrow> Inr (Fin (x / b)) | NaN \<Rightarrow> Inr NaN)"
| "num_div a NaN = Inr NaN"

text \<open>Comparisons with \<^verbatim>\<open>nan\<close> are false.\<close>

fun num_le :: "pynum \<Rightarrow> pynum \<Rightarrow> bool" where
  "num_le (Fin a) (Fin b) = (a \<le> b)"
| "num_le _ _ = False"

fun num_lt :: "pynum \<Rightarrow> pynum \<Rightarrow> bool" where
  "num_lt (Fin a) (Fin b) = (a < b)"
| "num_lt _ _ = False"

text \<open>\<^verbatim>\<open>min(a, b)\<close> keeps its first argument unless the second is smaller.\<close>

definition num_min :: "pynum \<Rightarrow> pynum \<Rightarrow> pynum" where
  "num_min a b = (if num_lt b a then b else a)"

definition round_half_even :: "rat \<Rightarrow> int" where
  "round_half_even q =
     (let f = \<lfloor>q\<rfloor>; d = q - of_int f in
      if d < 1 / 2 then f else if 1 / 2 < d then f + 1 else if even f then f else f + 1)"

text \<open>\<^verbatim>\<open>round(x, n)\<close>: to \<open>n\<close> decimal places, ties to the even neighbour; \<^verbatim>\<open>nan\<close> stays.\<close>

fun py_round :: "pynum \<Rightarrow> nat \<Rightarrow> pynum" where
  "py_round (Fin q) n = Fin (of_int (round_half_even (q * 10 ^ n)) / 10 ^ n)"
| "py_round NaN n = NaN"

subsection \<open>\<^verbatim>\<open>float()\<close> and \<^verbatim>\<open>int()\<close> on cells\<close>

text \<open>The ASCII characters for which \<^verbatim>\<open>str.isspace\<close> holds; they are what \<^verbatim>\<open>float()\<close> and
  \<^verbatim>\<open>int()\<close> strip and what \<^verbatim>\<open>\s\<close> matches in a regular expression.\<close>

definition is_space :: "char \<Rightarrow> bool" where
  "is_space c =
     (c \<in> set [CHR '' '', CHR 0x09, CHR 0x0A, CHR 0x0B, CHR 0x0C, CHR 0x0D,
                 CHR 0x1C, CHR 0x1D, CHR 0x1E, CHR 0x1F])"

definition digit_val :: "char \<Rightarrow> nat option" where
  "digit_val c = map_of (zip ''0123456789'' [0, 1, 2, 3, 4, 5, 6, 7, 8, 9]) c"

definition is_digit :: "char \<Rightarrow> bool" where
  "is_digit c = (digit_val c \<noteq> None)"

text \<open>The value of a string of decimal digits, most significant first.\<close>

definition digits_val :: "string \<Rightarrow> nat" where
  "digits_val ds = foldl (\<lambda>acc c. 10 * acc + the (digit_val c)) 0 ds"

definition strip :: "string \<Rightarrow> string" where
  "strip s = rev (dropWhile is_space (rev (dropWhile is_space s)))"

text \<open>
  Text accepted by \<^verbatim>\<open>float()\<close>: optional surrounding white space, an optional sign, and
  decimal digits with an optional fraction. Everything else is rejected. (Python also
  accepts exponents, digit-group underscores and the spellings of \<^verbatim>\<open>inf\<close> and \<^verbatim>\<open>nan\<close>;
  no statement below rests on the model rejecting those.)
\<close>

definition unsigned_float_of_str :: "string \<Rightarrow> rat option" where
  "unsigned_float_of_str s =
     (let ip = takeWhile is_digit s; r = dropWhile is_digit s in
      case r of
        [] \<Rightarrow> if ip = [] then None else Some (of_nat (digits_val ip))
      | c # fp \<Rightarrow>
          if c = CHR ''.'' \<and> list_all is_digit fp \<and> \<not> (ip = [] \<and> fp = [])
          then Some (of_nat (digits_val ip) + of_nat (digits_val fp) / 10 ^ length fp)
          else None)"

definition float_of_str :: "string \<Rightarrow> rat option" where
  "float_of_str s =
     (case strip s of
        [] \<Rightarrow> None
      | c # cs \<Rightarrow>
          if c = CHR ''-'' then map_option uminus (unsigned_float_of_str cs)
          else if c = CHR ''+'' then unsigned_float_of_str cs
          else unsigned_float_of_str (c # cs))"

definition int_of_str :: "string \<Rightarrow> int option" where
  "int_of_str s =
     (let digits = (\<lambda>ds. if ds \<noteq> [] \<and> list_all is_digit ds then Some (int (digits_val ds)) else None) in
      case strip s of
        [] \<Rightarrow> None
      | c # cs \<Rightarrow>
          if c = CHR ''-'' then map_option uminus (digits cs)
          else if c = CHR ''+'' then digits cs
          else digits (c # cs))"

fun py_float :: "cell \<Rightarrow> error + pynum" where
  "py_float (CInt i) = Inr (Fin (of_int i))"
| "py_float (CFloat x) = Inr x"
| "py_float (CStr s) =
     (case float_of_str s of
        Some q \<Rightarrow> Inr (Fin q)
      | None \<Rightarrow> Inl (ValueError ''could not convert string to float''))"

text \<open>\<^verbatim>\<open>int()\<close> truncates a float towards zero and rejects \<^verbatim>\<open>nan\<close>.\<close>

definition trunc :: "rat \<Rightarrow> int" where
  "trunc q = (if 0 \<le> q then \<lfloor>q\<rfloor> else \<lceil>q\<rceil>)"

fun py_int :: "cell \<Rightarrow> error + int" where
  "py_int (CInt i) = Inr i"
| "py_int (CFloat (Fin q)) = Inr (trunc q)"
| "py_int (CFloat NaN) = Inl (ValueError ''cannot convert float NaN to integer'')"
| "py_int (CStr s) =
     (case int_of_str s of
        Some i \<Rightarrow> Inr i
      | None \<Rightarrow> Inl (ValueError ''invalid literal for int() with base 10''))"

text \<open>Sequencing of computations that may raise.\<close>

definition rbind :: "error + 'a \<Rightarrow> ('a \<Rightarrow> error + 'b) \<Rightarrow> error + 'b" where
  "rbind m f = (case m of Inl e \<Rightarrow> Inl e | Inr x \<Rightarrow> f x)"

subsection \<open>Data frames, policy and the agent's state\<close>

record dataframe =
  columns :: "string list"
  rows :: "cell list list"

text \<open>\<^verbatim>\<open>DataFrame.empty\<close>: some axis has length zero.\<close>

definition df_empty :: "dataframe \<Rightarrow> bool" where
  "df_empty df = (columns df = [] \<or> rows df = [])"

text \<open>\<^verbatim>\<open>pd.DataFrame()\<close>\<close>

definition empty_frame :: dataframe where
  "empty_frame = \<lparr>columns = [], rows = []\<rparr>"

text \<open>A row of a frame as a labelled \<^verbatim>\<open>Series\<close>.\<close>

definition series :: "dataframe \<Rightarrow> cell list \<Rightarrow> row" where
  "series df r = zip (columns df) r"

definition iterrows :: "dataframe \<Rightarrow> row list" where
  "iterrows df = map (series df) (rows df)"

definition is_null :: "cell \<Rightarrow> bool" where
  "is_null c = (c = CFloat NaN)"

text \<open>\<^verbatim>\<open>df.dropna(how='all').reset_index(drop=True)\<close>\<close>

definition dropna_all :: "dataframe \<Rightarrow> dataframe" where
  "dropna_all df = df\<lparr>rows := filter (\<lambda>r. \<not> list_all is_null r) (rows df)\<rparr>"

record policy =
  pf_rate :: pynum
  pf_cap :: pynum
  esi_employee_rate :: pynum
  esi_threshold :: pynum
  pt_amount :: pynum
  leave_encashment :: bool
  encash_max_days :: pynum

record agent =
  payslip_dir :: string
  data :: "string \<rightharpoonup> dataframe"
  policies :: policy

text \<open>\<^verbatim>\<open>PayrollAgent.__init__\<close>\<close>

definition default_policies :: policy where
  "default_policies =
     \<lparr>pf_rate = Fin (12 / 100), pf_cap = Fin 1800, esi_employee_rate = Fin (75 / 10000),
      esi_threshold = Fin 21000, pt_amount = Fin 200, leave_encashment = False,
      encash_max_days = Fin 10\<rparr>"

definition init :: "string \<Rightarrow> agent" where
  "init payslip_output_dir =
     \<lparr>payslip_dir = payslip_output_dir, data = Map.empty, policies = default_policies\<rparr>"

subsection \<open>\<^verbatim>\<open>load_uploaded_excel\<close>\<close>

text \<open>A sheet of the workbook: its name and what \<^verbatim>\<open>pd.read_excel\<close> reads from it. The
  five-row probe \<^verbatim>\<open>temp_df\<close> has the columns of the whole sheet.\<close>

record sheet =
  sheet_name :: string
  frame :: dataframe

definition salary_keywords :: "string list" where
  "salary_keywords = [''basic'', ''hra'', ''gross'', ''ctc'', ''salary'']"

text \<open>\<^verbatim>\<open>any(col.lower() in [...] for col in temp_df.columns.str.lower())\<close>: membership of the
  lower-cased label in the list, not a substring test.\<close>

definition is_salary_sheet :: "sheet \<Rightarrow> bool" where
  "is_salary_sheet s =
     list_ex (\<lambda>col. lower col \<in> set salary_keywords) (map lower (columns (frame s)))"

definition is_attendance_sheet :: "sheet \<Rightarrow> bool" where
  "is_attendance_sheet s = str_in ''atten'' (lower (sheet_name s))"

text \<open>The two scanning loops, with the variable each one assigns as accumulator.\<close>

fun scan_salary :: "dataframe option \<Rightarrow> sheet list \<Rightarrow> dataframe option" where
  "scan_salary salary_df [] = salary_df"
| "scan_salary salary_df (s # ss) =
     scan_salary (if is_salary_sheet s then Some (dropna_all (frame s)) else salary_df) ss"

fun scan_attendance :: "dataframe option \<Rightarrow> sheet list \<Rightarrow> dataframe option" where
  "scan_attendance attendance_df [] = attendance_df"
| "scan_attendance attendance_df (s # ss) =
     scan_attendance (if is_attendance_sheet s then Some (dropna_all (frame s)) else attendance_df) ss"

text \<open>The body of the \<^verbatim>\<open>try\<close> block. The argument is what \<^verbatim>\<open>pd.ExcelFile\<close> makes of the
  path: the sheets in workbook order, or \<open>None\<close> when the file cannot be opened or parsed.\<close>

definition load_body :: "agent \<Rightarrow> sheet list option \<Rightarrow> error + agent" where
  "load_body st xls =
     (case xls of
        None \<Rightarrow> Inl (ValueError ''cannot open workbook'')
      | Some sheets \<Rightarrow>
          (case scan_salary None sheets of
             None \<Rightarrow> Inl (ValueError ''No salary data found in uploaded file.'')
           | Some salary_df \<Rightarrow>
               Inr (st\<lparr>data := (data st)
                      (''salary'' \<mapsto> salary_df,
                       ''attendance'' \<mapsto>
                         (case scan_attendance None sheets of
                            Some attendance_df \<Rightarrow> attendance_df
                          | None \<Rightarrow> empty_frame))\<rparr>)))"

text \<open>\<^verbatim>\<open>except Exception\<close> turns every exception of the body into the return value
  \<^verbatim>\<open>False\<close>; the state is then as before the call.\<close>

definition load_uploaded_excel :: "agent \<Rightarrow> sheet list option \<Rightarrow> bool \<times> agent" where
  "load_uploaded_excel st xls =
     (case load_body st xls of Inl e \<Rightarrow> (False, st) | Inr st' \<Rightarrow> (True, st'))"


subsection \<open>\<^verbatim>\<open>update_policy\<close>\<close>

text \<open>\<^verbatim>\<open>re.search(r'pf cap\s*(\d+)', text)\<close>: the match attempted at the start of \<open>s\<close>, and the
  leftmost match in \<open>s\<close>; the result is the captured group. White space and digits are
  disjoint, so the greedy \<^verbatim>\<open>\s*\<close> never has to give characters back.\<close>

definition match_pf_cap :: "string \<Rightarrow> string option" where
  "match_pf_cap s =
     (if startswith s ''pf cap'' then
        (let ds = takeWhile is_digit (dropWhile is_space (drop 6 s)) in
         if ds = [] then None else Some ds)
      else None)"

fun search_pf_cap :: "string \<Rightarrow> string option" where
  "search_pf_cap [] = match_pf_cap []"
| "search_pf_cap (c # cs) =
     (case match_pf_cap (c # cs) of Some ds \<Rightarrow> Some ds | None \<Rightarrow> search_pf_cap cs)"

definition update_policy :: "agent \<Rightarrow> string \<Rightarrow> agent" where
  "update_policy st policy_text =
     (let text = lower policy_text;
          p1 = (if list_ex (\<lambda>w. str_in w text) [''encash'', ''leave encashment'']
                then (policies st)\<lparr>leave_encashment := True\<rparr> else policies st);
          p2 = (if str_in ''pt 250'' text then p1\<lparr>pt_amount := Fin 250\<rparr> else p1);
          p3 = (case search_pf_cap text of
                  Some ds \<Rightarrow> p2\<lparr>pf_cap := Fin (of_nat (digits_val ds))\<rparr>
                | None \<Rightarrow> p2)
      in st\<lparr>policies := p3\<rparr>)"

subsection \<open>\<^verbatim>\<open>calculate_payroll\<close>\<close>

text \<open>The result dictionary; \<open>pdf_path\<close> is the entry the callers add after rendering.\<close>

record payroll =
  emp_id :: string
  name :: string
  designation :: string
  month :: string
  present_days :: pynum
  approved_paid_leaves :: pynum
  lop_days :: pynum
  payable_days :: pynum
  remaining_leaves :: pynum
  basic_da :: pynum
  hra :: pynum
  other_allow :: pynum
  gross :: pynum
  pf :: pynum
  esi :: pynum
  pt :: pynum
  tds :: pynum
  encashment :: pynum
  total_deductions :: pynum
  net_pay :: pynum
  pdf_path :: "string option"

text \<open>The local function \<^verbatim>\<open>get(col_keywords, default)\<close> of \<^verbatim>\<open>calculate_payroll\<close>, with the row
  it closes over as first argument: the loop over \<^verbatim>\<open>emp_row.index\<close>. (\<open>dflt\<close> is the source's
  \<^verbatim>\<open>default\<close>.)\<close>

definition label_matches :: "string list \<Rightarrow> string \<Rightarrow> bool" where
  "label_matches col_keywords col = list_ex (\<lambda>k. str_in (lower k) (lower col)) col_keywords"

fun get :: "row \<Rightarrow> string list \<Rightarrow> cell \<Rightarrow> cell" where
  "get [] col_keywords dflt = dflt"
| "get ((col, v) # rest) col_keywords dflt =
     (if label_matches col_keywords col then v else get rest col_keywords dflt)"

text \<open>The values of the local variables after lines 93 to 101.\<close>

record resolved =
  r_name :: cell
  r_emp_id :: cell
  r_designation :: cell
  r_basic_da :: pynum
  r_hra :: pynum
  r_other_allow :: pynum
  r_gross_salary :: pynum
  r_days_in_month :: int
  r_tds :: pynum

definition resolve :: "row \<Rightarrow> error + resolved" where
  "resolve emp_row =
     (let name = get emp_row [''name''] (CInt 0);
          emp_id = get emp_row [''code'', ''emp id'', ''e.code'', ''id''] (CStr ''Unknown'');
          designation = get emp_row [''designation'', ''role''] (CInt 0) in
      rbind (py_float (get emp_row [''basic'', ''basic + da''] (CInt 0))) (\<lambda>basic_da.
      rbind (py_float (get emp_row [''hra''] (CInt 0))) (\<lambda>hra.
      rbind (py_float (get emp_row [''other allow'', ''allowance''] (CInt 0))) (\<lambda>other_allow.
      rbind (py_float (get emp_row [''gross'', ''monthly gross'', ''ctc'']
                         (CFloat (num_add (num_add basic_da hra) other_allow)))) (\<lambda>gross_salary.
      rbind (py_int (get emp_row [''days in month'', ''month days''] (CInt 31))) (\<lambda>days_in_month.
      rbind (py_float (get emp_row [''tds''] (CInt 0))) (\<lambda>tds.
      Inr \<lparr>r_name = name, r_emp_id = emp_id, r_designation = designation,
           r_basic_da = basic_da, r_hra = hra, r_other_allow = other_allow,
           r_gross_salary = gross_salary, r_days_in_month = days_in_month,
           r_tds = tds\<rparr>)))))))"

text \<open>The attendance values after lines 103 to 118.\<close>

record attendance =
  a_present_days :: pynum
  a_approved_paid_leaves :: pynum
  a_lop_days :: pynum
  a_remaining_leaves :: pynum

text \<open>The rows \<^verbatim>\<open>df[df.apply(lambda r: ident.lower() in str(r.values).lower(), axis=1)]\<close>.
  \<open>str_values\<close> stands for numpy's rendering \<^verbatim>\<open>str(r.values)\<close> of a row's cells.\<close>

definition matching_rows :: "(cell list \<Rightarrow> string) \<Rightarrow> string \<Rightarrow> dataframe \<Rightarrow> cell list list" where
  "matching_rows str_values ident df =
     filter (\<lambda>r. str_in (lower ident) (lower (str_values r))) (rows df)"

text \<open>
  Lines 103 to 118. \<open>str_of\<close> stands for Python's \<^verbatim>\<open>str\<close> on a cell value. When a row of
  the attendance table matches, the source calls \<^verbatim>\<open>get(att, [...], days_in_month)\<close>: three
  positional arguments to a function of two parameters, which raises \<^verbatim>\<open>TypeError\<close> before
  anything is read from the row.
\<close>

definition read_attendance ::
  "(cell \<Rightarrow> string) \<Rightarrow> (cell list \<Rightarrow> string) \<Rightarrow> agent \<Rightarrow> resolved \<Rightarrow> error + attendance" where
  "read_attendance str_of str_values st r =
     (let fallback = \<lparr>a_present_days = Fin (of_int (r_days_in_month r)),
                       a_approved_paid_leaves = Fin 0, a_lop_days = Fin 0,
                       a_remaining_leaves = Fin 12\<rparr> in
      case data st ''attendance'' of
        None \<Rightarrow> Inl (KeyError ''attendance'')
      | Some att_df \<Rightarrow>
          if \<not> df_empty att_df then
            (if matching_rows str_values (str_of (r_emp_id r)) att_df \<noteq> [] then
               Inl (TypeError ''get() takes from 1 to 2 positional arguments but 3 were given'')
             else Inr fallback)
          else Inr fallback)"

text \<open>Lines 120 and 121.\<close>

definition prorated_gross :: "resolved \<Rightarrow> attendance \<Rightarrow> error + pynum" where
  "prorated_gross r a =
     (let payable_days = num_add (a_present_days a) (a_approved_paid_leaves a) in
      rbind (num_div (r_gross_salary r) (Fin (of_int (r_days_in_month r)))) (\<lambda>per_day.
      Inr (num_mul per_day payable_days)))"

text \<open>Lines 123 to 155, from the prorated gross on. \<open>now\<close> is the month label
  \<^verbatim>\<open>datetime.now().strftime("%B %Y")\<close>. The division by the literal 30 on line 130 cannot
  raise and is written as a multiplication by \<open>1 / 30\<close>.\<close>

definition deductions ::
  "(cell \<Rightarrow> string) \<Rightarrow> string \<Rightarrow> policy \<Rightarrow> resolved \<Rightarrow> attendance \<Rightarrow> pynum \<Rightarrow> payroll" where
  "deductions str_of now pol r a prorated =
     (let payable_days = num_add (a_present_days a) (a_approved_paid_leaves a);
          pf = num_min (num_mul (r_basic_da r) (pf_rate pol)) (pf_cap pol);
          esi = (if num_le prorated (esi_threshold pol)
                 then num_mul prorated (esi_employee_rate pol) else Fin 0);
          pt = (if num_lt (Fin 15000) prorated then pt_amount pol else Fin 0);
          total_deductions = num_add (num_add (num_add pf esi) pt) (r_tds r);
          encashment =
            (if leave_encashment pol \<and> num_lt (Fin 0) (a_remaining_leaves a)
             then num_mul (num_mul (num_add (r_basic_da r) (r_hra r)) (Fin (1 / 30)))
                    (num_min (a_remaining_leaves a) (encash_max_days pol))
             else Fin 0);
          net_pay = num_add (num_sub prorated total_deductions) encashment
      in \<lparr>emp_id = str_of (r_emp_id r), name = str_of (r_name r),
          designation = str_of (r_designation r), month = now,
          present_days = py_round (a_present_days a) 1,
          approved_paid_leaves = py_round (a_approved_paid_leaves a) 1,
          lop_days = py_round (a_lop_days a) 1,
          payable_days = py_round payable_days 1,
          remaining_leaves = py_round (a_remaining_leaves a) 1,
          basic_da = py_round (r_basic_da r) 2,
          hra = py_round (r_hra r) 2,
          other_allow = py_round (r_other_allow r) 2,
          gross = py_round prorated 2,
          pf = py_round pf 2,
          esi = py_round esi 2,
          pt = py_round pt 2,
          tds = py_round (r_tds r) 2,
          encashment = py_round encashment 2,
          total_deductions = py_round total_deductions 2,
          net_pay = py_round net_pay 2,
          pdf_path = None\<rparr>)"

definition calculate_payroll ::
  "(cell \<Rightarrow> string) \<Rightarrow> (cell list \<Rightarrow> string) \<Rightarrow> string \<Rightarrow> agent \<Rightarrow> row \<Rightarrow> error + payroll" where
  "calculate_payroll str_of str_values now st emp_row =
     rbind (resolve emp_row) (\<lambda>r.
     rbind (read_attendance str_of str_values st r) (\<lambda>a.
     rbind (prorated_gross r a) (\<lambda>prorated.
     Inr (deductions str_of now (policies st) r a prorated))))"

subsection \<open>Rendering and the orchestrating operations\<close>

text \<open>\<^verbatim>\<open>os.path.join(a, b)\<close> on POSIX paths.\<close>

definition path_join :: "string \<Rightarrow> string \<Rightarrow> string" where
  "path_join a b =
     (if startswith b ''/'' then b
      else if a = [] \<or> last a = CHR ''/'' then a @ b
      else a @ ''/'' @ b)"

text \<open>The file system is a map from paths to the documents stored there. A written
  document is represented by the payroll record it prints; \<^verbatim>\<open>FPDF.output(path)\<close> opens the
  path for writing, so what was stored there before is replaced.\<close>

type_synonym files = "string \<rightharpoonup> payroll"

definition payslip_filename :: "payroll \<Rightarrow> string" where
  "payslip_filename d = ''payslip_'' @ emp_id d @ ''_'' @ replace_spaces (month d) @ ''.pdf''"

definition generate_payslip_pdf :: "agent \<Rightarrow> files \<Rightarrow> payroll \<Rightarrow> string \<times> files" where
  "generate_payslip_pdf st fs d =
     (let filename = payslip_filename d;
          path = path_join (payslip_dir st) filename
      in (path, fs(path \<mapsto> d)))"

text \<open>The loop of \<^verbatim>\<open>generate_all_payslips\<close>; an exception of \<^verbatim>\<open>calculate_payroll\<close> leaves the
  loop, the files written so far stay.\<close>

fun payslip_loop ::
  "(cell \<Rightarrow> string) \<Rightarrow> (cell list \<Rightarrow> string) \<Rightarrow> string \<Rightarrow> agent \<Rightarrow> files \<Rightarrow> payroll list \<Rightarrow>
   row list \<Rightarrow> (error + payroll list) \<times> files" where
  "payslip_loop str_of str_values now st fs results [] = (Inr results, fs)"
| "payslip_loop str_of str_values now st fs results (r # rs) =
     (case calculate_payroll str_of str_values now st r of
        Inl e \<Rightarrow> (Inl e, fs)
      | Inr payroll \<Rightarrow>
          (case generate_payslip_pdf st fs payroll of
             (path, fs') \<Rightarrow>
               payslip_loop str_of str_values now st fs'
                 (results @ [payroll\<lparr>pdf_path := Some path\<rparr>]) rs))"

definition generate_all_payslips ::
  "(cell \<Rightarrow> string) \<Rightarrow> (cell list \<Rightarrow> string) \<Rightarrow> string \<Rightarrow> agent \<Rightarrow> files \<Rightarrow>
   (error + payroll list) \<times> files" where
  "generate_all_payslips str_of str_values now st fs =
     (case data st ''salary'' of
        None \<Rightarrow> (Inl (KeyError ''salary''), fs)
      | Some salary \<Rightarrow> payslip_loop str_of str_values now st fs [] (iterrows salary))"

definition generate_single_payslip ::
  "(cell \<Rightarrow> string) \<Rightarrow> (cell list \<Rightarrow> string) \<Rightarrow> string \<Rightarrow> agent \<Rightarrow> files \<Rightarrow> string \<Rightarrow>
   (error + payroll) \<times> files" where
  "generate_single_payslip str_of str_values now st fs ident =
     (case data st ''salary'' of
        None \<Rightarrow> (Inl (KeyError ''salary''), fs)
      | Some salary \<Rightarrow>
          (case (if columns salary = [] then [] else matching_rows str_values ident salary) of
             [] \<Rightarrow> (Inl (ValueError ''Employee not found''), fs)
           | r # _ \<Rightarrow>
               (case calculate_payroll str_of str_values now st (series salary r) of
                  Inl e \<Rightarrow> (Inl e, fs)
                | Inr payroll \<Rightarrow>
                    (case generate_payslip_pdf st fs payroll of
                       (path, fs') \<Rightarrow> (Inr (payroll\<lparr>pdf_path := Some path\<rparr>), fs')))))"

subsection \<open>Example inputs\<close>



definition wb_salary_new :: sheet where
  "wb_salary_new =
     \<lparr>sheet_name = ''New'',
      frame = \<lparr>columns = [''Emp'', ''GROSS''],
               rows = [[CStr ''E1'', CInt 2], [CFloat NaN, CFloat NaN]]\<rparr>\<rparr>"



text \<open>
  Stand-ins for the two renderers that \<^verbatim>\<open>calculate_payroll\<close> takes as parameters (Python's
  \<^verbatim>\<open>str\<close> on a cell and numpy's \<^verbatim>\<open>str\<close> on the values of a row). They serve to instantiate
  statements at concrete inputs; on a text cell \<open>demo_str_of\<close> returns the text, as Python
  does, and \<open>demo_str_values\<close> contains the text of every text cell of the row.
\<close>

definition demo_str_of :: "cell \<Rightarrow> string" where
  "demo_str_of c = (case c of CStr s \<Rightarrow> s | _ \<Rightarrow> ''0'')"

definition demo_str_values :: "cell list \<Rightarrow> string" where
  "demo_str_values r = concat (map (\<lambda>c. '' '' @ demo_str_of c) r)"

text \<open>
  A salary row, what its fields resolve to, an agent holding that row and a given attendance
  table, and the attendance values used when no attendance row matches.
\<close>

definition row_e1 :: row where
  "row_e1 = [(''Emp Code'', CStr ''E1''), (''Name'', CStr ''Asha''), (''Basic'', CInt 20000),
             (''HRA'', CInt 8000), (''Gross'', CInt 28000), (''Days in Month'', CInt 30)]"

definition resolved_e1 :: resolved where
  "resolved_e1 = \<lparr>r_name = CStr ''Asha'', r_emp_id = CStr ''E1'', r_designation = CInt 0,
     r_basic_da = Fin 20000, r_hra = Fin 8000, r_other_allow = Fin 0,
     r_gross_salary = Fin 28000, r_days_in_month = 30, r_tds = Fin 0\<rparr>"

definition loaded_agent :: "cell list list \<Rightarrow> agent" where
  "loaded_agent att_rows =
     \<lparr>payslip_dir = ''payslips'',
      data = [''salary'' \<mapsto> \<lparr>columns = map fst row_e1, rows = [map snd row_e1]\<rparr>,
              ''attendance'' \<mapsto> \<lparr>columns = [''Emp'', ''Present''], rows = att_rows\<rparr>],
      policies = default_policies\<rparr>"

definition fallback_e1 :: attendance where
  "fallback_e1 = \<lparr>a_present_days = Fin 30, a_approved_paid_leaves = Fin 0, a_lop_days = Fin 0,
     a_remaining_leaves = Fin 12\<rparr>"



definition row_plain :: row where
  "row_plain = [(''Emp Code'', CStr ''E1''), (''Name'', CStr ''Asha'')]"

definition row_nogross :: row where
  "row_nogross = [(''Emp Code'', CStr ''E3''), (''Basic'', CInt 20000), (''HRA'', CFloat (Fin 8000)),
                  (''Other Allowance'', CInt 500)]"

definition resolved_nogross :: resolved where
  "resolved_nogross = \<lparr>r_name = CInt 0, r_emp_id = CStr ''E3'', r_designation = CInt 0,
     r_basic_da = Fin 20000, r_hra = Fin 8000, r_other_allow = Fin 500,
     r_gross_salary = Fin 28500, r_days_in_month = 31, r_tds = Fin 0\<rparr>"


text \<open>
  \<open>unmatched col_keywords r\<close>: no column label of the row contains one of the keywords.
\<close>

definition unmatched :: "string list \<Rightarrow> row \<Rightarrow> bool" where
  "unmatched col_keywords r = list_all (\<lambda>(c, x). \<not> label_matches col_keywords c) r"

section \<open>Properties\<close>

subsection \<open>Auxiliary facts\<close>

lemma startswith_iff: "startswith s p \<longleftrightarrow> (\<exists>ss. s = p @ ss)"
  by (induction s p rule: startswith.induct) auto

lemma str_in_iff: "str_in sub s \<longleftrightarrow> (\<exists>ps ss. s = ps @ sub @ ss)"
proof (induction s)
  case Nil
  then show ?case by auto
next
  case (Cons c cs)
  show ?case
  proof
    assume "str_in sub (c # cs)"
    then consider "startswith (c # cs) sub" | "str_in sub cs" by auto
    then show "\<exists>ps ss. c # cs = ps @ sub @ ss"
    proof cases
      case 1
      then obtain ss where "c # cs = sub @ ss" by (auto simp: startswith_iff)
      then have "c # cs = [] @ sub @ ss" by simp
      then show ?thesis by blast
    next
      case 2
      then obtain ps ss where "cs = ps @ sub @ ss" using Cons.IH by blast
      then have "c # cs = (c # ps) @ sub @ ss" by simp
      then show ?thesis by blast
    qed
  next
    assume "\<exists>ps ss. c # cs = ps @ sub @ ss"
    then obtain ps ss where eq: "c # cs = ps @ sub @ ss" by blast
    show "str_in sub (c # cs)"
    proof (cases ps)
      case Nil
      with eq have "startswith (c # cs) sub" by (auto simp: startswith_iff)
      then show ?thesis by simp
    next
      case (Cons p ps')
      with eq have "cs = ps' @ sub @ ss" by simp
      then have "str_in sub cs" using Cons.IH by blast
      then show ?thesis by simp
    qed
  qed
qed

lemma label_matches_iff:
  "label_matches kws col \<longleftrightarrow> (\<exists>k \<in> set kws. \<exists>ps ss. lower col = ps @ lower k @ ss)"
  by (simp add: label_matches_def list_ex_iff str_in_iff)

lemma get_no_match:
  "\<forall>(c, x) \<in> set r. \<not> label_matches kws c \<Longrightarrow> get r kws d = d"
  by (induction r) auto

lemma get_first:
  "\<forall>(c, x) \<in> set pre. \<not> label_matches kws c \<Longrightarrow> label_matches kws col \<Longrightarrow>
   get (pre @ (col, v) # post) kws d = v"
  by (induction pre) auto

lemma get_unmatched: "unmatched kws r \<Longrightarrow> get r kws d = d"
  by (induction r) (auto simp: unmatched_def)





lemma load_success_keys:
  "fst (load_uploaded_excel st xls) \<Longrightarrow>
   data (snd (load_uploaded_excel st xls)) ''salary'' \<noteq> None \<and>
   data (snd (load_uploaded_excel st xls)) ''attendance'' \<noteq> None"
  by (auto simp: load_uploaded_excel_def load_body_def split: option.splits sum.splits)

lemma load_failure_state:
  "\<not> fst (load_uploaded_excel st xls) \<Longrightarrow> snd (load_uploaded_excel st xls) = st"
  by (auto simp: load_uploaded_excel_def split: sum.splits)

lemma round_half_even_of_int [simp]: "round_half_even (of_int i) = i"
  by (simp add: round_half_even_def)

lemma round_int_cases:
  "round_half_even 2800000 = 2800000" "round_half_even 180000 = 180000"
  "round_half_even 0 = 0" "round_half_even 20000 = 20000" "round_half_even 200000 = 200000"
  "round_half_even 2600000 = 2600000"
  using round_half_even_of_int [of 2800000] round_half_even_of_int [of 180000]
    round_half_even_of_int [of 0] round_half_even_of_int [of 20000]
    round_half_even_of_int [of 200000] round_half_even_of_int [of 2600000]
  by simp_all

lemma resolve_row_e1: "resolve row_e1 = Inr resolved_e1"
  by code_simp

lemma read_attendance_e1:
  "read_attendance demo_str_of demo_str_values (loaded_agent [[CStr ''E9'', CInt 30]]) resolved_e1
     = Inr fallback_e1"
  by code_simp




lemma resolve_row_nogross: "resolve row_nogross = Inr resolved_nogross"
  by code_simp


lemma search_pf_cap_skip_unmatched:
  "\<forall>i < length pre. match_pf_cap (drop i (pre @ s)) = None \<Longrightarrow>
   search_pf_cap (pre @ s) = search_pf_cap s"
proof (induction pre)
  case Nil
  then show ?case by simp
next
  case (Cons c pre)
  have m: "match_pf_cap (c # pre @ s) = None"
    using Cons.prems [rule_format, of 0] by simp
  have "\<forall>i < length pre. match_pf_cap (drop i (pre @ s)) = None"
  proof (intro allI impI)
    fix i assume "i < length pre"
    then show "match_pf_cap (drop i (pre @ s)) = None"
      using Cons.prems [rule_format, of "Suc i"] by simp
  qed
  then have "search_pf_cap (pre @ s) = search_pf_cap s" by (rule Cons.IH)
  then show ?case using m by simp
qed

lemma match_pf_cap_2000:
  assumes "takeWhile is_digit post = []"
  shows "match_pf_cap (''pf cap 2000'' @ post) = Some ''2000''"
proof -
  have sp: "is_space CHR '' ''" "\<not> is_space CHR ''2''"
    by (simp_all add: is_space_def)
  have dg: "is_digit CHR ''2''" "is_digit CHR ''0''"
    by (simp_all add: is_digit_def digit_val_def)
  have d: "drop 6 (''pf cap 2000'' @ post) = '' 2000'' @ post" by simp
  have w: "dropWhile is_space ('' 2000'' @ post) = ''2000'' @ post"
    using sp by simp
  have t: "takeWhile is_digit (''2000'' @ post) = ''2000''"
    using dg assms by simp
  have s: "startswith (''pf cap 2000'' @ post) ''pf cap''" by simp
  show ?thesis
    unfolding match_pf_cap_def Let_def d w t using s by simp
qed

lemma search_pf_cap_2000:
  assumes "\<forall>i < length pre. match_pf_cap (drop i (pre @ ''pf cap 2000'' @ post)) = None"
    and "takeWhile is_digit post = []"
  shows "search_pf_cap (pre @ ''pf cap 2000'' @ post) = Some ''2000''"
proof -
  have "search_pf_cap (pre @ ''pf cap 2000'' @ post) = search_pf_cap (''pf cap 2000'' @ post)"
    using assms(1) by (rule search_pf_cap_skip_unmatched)
  moreover have "search_pf_cap (''pf cap 2000'' @ post) = Some ''2000''"
    using match_pf_cap_2000 [OF assms(2)] by simp
  ultimately show ?thesis by simp
qed

lemma digits_val_1500: "digits_val ''1500'' = 1500"
  by (simp add: digits_val_def digit_val_def)

lemma digits_val_2000: "digits_val ''2000'' = 2000"
  by (simp add: digits_val_def digit_val_def)

lemma digits_val_20000: "digits_val ''20000'' = 20000"
  by (simp add: digits_val_def digit_val_def)

lemma no_leave_encashment:
  "\<not> str_in ''encash'' s \<Longrightarrow> \<not> str_in ''leave encashment'' s"
proof
  assume n: "\<not> str_in ''encash'' s" and "str_in ''leave encashment'' s"
  then obtain ps ss where "s = ps @ ''leave encashment'' @ ss" by (auto simp: str_in_iff)
  then have "s = (ps @ ''leave '') @ ''encash'' @ (''ment'' @ ss)" by simp
  then have "str_in ''encash'' s" unfolding str_in_iff by blast
  with n show False by simp
qed

subsection \<open>Deduction calculator\<close>

text \<open>
  Claim C1. On a row whose fields resolve to basic+DA 20000, HRA 8000, other allowances 0,
  gross 28000, 30 days in the month and TDS 0, with 30 present days and no approved paid
  leave, and under the default policy, \<^verbatim>\<open>calculate_payroll\<close> returns a result with
  \<open>pf = 1800\<close> (12 percent of 20000 is 2400, capped at 1800), \<open>esi = 0\<close>, \<open>pt = 200\<close>,
  \<open>total_deductions = 2000\<close>, prorated \<open>gross = 28000\<close> and \<open>net_pay = 26000\<close>.
\<close>

theorem deductions_reference_case:
  assumes "resolve emp_row = Inr r"
    and "r_basic_da r = Fin 20000" and "r_hra r = Fin 8000" and "r_other_allow r = Fin 0"
    and "r_gross_salary r = Fin 28000" and "r_days_in_month r = 30" and "r_tds r = Fin 0"
    and "read_attendance str_of str_values st r = Inr a"
    and "a_present_days a = Fin 30" and "a_approved_paid_leaves a = Fin 0"
    and "policies st = default_policies"
  shows "num_mul (r_basic_da r) (pf_rate (policies st)) = Fin 2400
    \<and> prorated_gross r a = Inr (Fin 28000)
    \<and> (\<exists>p. calculate_payroll str_of str_values now st emp_row = Inr p
          \<and> pf p = Fin 1800 \<and> esi p = Fin 0 \<and> pt p = Fin 200
          \<and> total_deductions p = Fin 2000 \<and> gross p = Fin 28000 \<and> net_pay p = Fin 26000)"
proof -
  have rate: "num_mul (r_basic_da r) (pf_rate (policies st)) = Fin 2400"
    using assms by (simp add: default_policies_def)
  have pg: "prorated_gross r a = Inr (Fin 28000)"
    using assms by (simp add: prorated_gross_def rbind_def)
  have cp: "calculate_payroll str_of str_values now st emp_row
      = Inr (deductions str_of now default_policies r a (Fin 28000))"
    using assms pg by (simp add: calculate_payroll_def rbind_def)
  have "pf (deductions str_of now default_policies r a (Fin 28000)) = Fin 1800"
    using assms by (simp add: deductions_def default_policies_def num_min_def Let_def round_int_cases)
  moreover have "esi (deductions str_of now default_policies r a (Fin 28000)) = Fin 0"
    using assms by (simp add: deductions_def default_policies_def Let_def round_int_cases)
  moreover have "pt (deductions str_of now default_policies r a (Fin 28000)) = Fin 200"
    using assms by (simp add: deductions_def default_policies_def Let_def round_int_cases)
  moreover have "total_deductions (deductions str_of now default_policies r a (Fin 28000)) = Fin 2000"
    using assms by (simp add: deductions_def default_policies_def num_min_def Let_def round_int_cases)
  moreover have "gross (deductions str_of now default_policies r a (Fin 28000)) = Fin 28000"
    using assms by (simp add: deductions_def default_policies_def Let_def round_int_cases)
  moreover have "net_pay (deductions str_of now default_policies r a (Fin 28000)) = Fin 26000"
    using assms by (simp add: deductions_def default_policies_def num_min_def Let_def round_int_cases)
  ultimately show ?thesis using rate pg cp by simp
qed

theorem deductions_reference_case_witness:
  "resolve row_e1 = Inr resolved_e1
   \<and> read_attendance demo_str_of demo_str_values (loaded_agent [[CStr ''E9'', CInt 30]]) resolved_e1
       = Inr fallback_e1
   \<and> policies (loaded_agent [[CStr ''E9'', CInt 30]]) = default_policies
   \<and> (\<exists>p. calculate_payroll demo_str_of demo_str_values ''May 2025''
             (loaded_agent [[CStr ''E9'', CInt 30]]) row_e1 = Inr p
          \<and> pf p = Fin 1800 \<and> esi p = Fin 0 \<and> pt p = Fin 200
          \<and> total_deductions p = Fin 2000 \<and> gross p = Fin 28000 \<and> net_pay p = Fin 26000)"
proof -
  have h1: "resolve row_e1 = Inr resolved_e1" by (rule resolve_row_e1)
  have h2: "read_attendance demo_str_of demo_str_values (loaded_agent [[CStr ''E9'', CInt 30]])
      resolved_e1 = Inr fallback_e1" by (rule read_attendance_e1)
  have h3: "policies (loaded_agent [[CStr ''E9'', CInt 30]]) = default_policies"
    by (simp add: loaded_agent_def)
  have c: "\<exists>p. calculate_payroll demo_str_of demo_str_values ''May 2025''
             (loaded_agent [[CStr ''E9'', CInt 30]]) row_e1 = Inr p
          \<and> pf p = Fin 1800 \<and> esi p = Fin 0 \<and> pt p = Fin 200
          \<and> total_deductions p = Fin 2000 \<and> gross p = Fin 28000 \<and> net_pay p = Fin 26000"
    using deductions_reference_case [OF h1 _ _ _ _ _ _ h2 _ _ h3, of "''May 2025''"]
    by (simp add: resolved_e1_def fallback_e1_def)
  show ?thesis using h1 h2 h3 c by blast
qed

text \<open>
  Claim C2 says that \<^verbatim>\<open>calculate_payroll\<close> never raises, also when a row of the attendance
  table matches the employee identifier. The code does raise there: whenever the fields of
  the salary row resolve and some row of a non-empty attendance table contains the
  identifier, the call \<^verbatim>\<open>get(att, [...], days_in_month)\<close> of line 115 raises \<^verbatim>\<open>TypeError\<close>.
\<close>

theorem attendance_match_raises_TypeError:
  assumes "resolve emp_row = Inr r"
    and "data st ''attendance'' = Some att"
    and "columns att \<noteq> []"
    and "x \<in> set (rows att)"
    and "str_in (lower (str_of (r_emp_id r))) (lower (str_values x))"
  shows "calculate_payroll str_of str_values now st emp_row
     = Inl (TypeError ''get() takes from 1 to 2 positional arguments but 3 were given'')"
proof -
  have ne: "rows att \<noteq> []" using assms(4) by auto
  have "x \<in> set (matching_rows str_values (str_of (r_emp_id r)) att)"
    using assms(4,5) by (simp add: matching_rows_def)
  then have "matching_rows str_values (str_of (r_emp_id r)) att \<noteq> []" by auto
  then show ?thesis
    using assms(1,2,3) ne
    by (simp add: calculate_payroll_def rbind_def read_attendance_def df_empty_def)
qed

theorem attendance_match_raises_TypeError_witness:
  "resolve row_e1 = Inr resolved_e1
   \<and> data (loaded_agent [[CStr ''E1'', CInt 28]]) ''attendance''
       = Some \<lparr>columns = [''Emp'', ''Present''], rows = [[CStr ''E1'', CInt 28]]\<rparr>
   \<and> str_in (lower (demo_str_of (r_emp_id resolved_e1)))
        (lower (demo_str_values [CStr ''E1'', CInt 28]))
   \<and> calculate_payroll demo_str_of demo_str_values ''May 2025''
        (loaded_agent [[CStr ''E1'', CInt 28]]) row_e1
       = Inl (TypeError ''get() takes from 1 to 2 positional arguments but 3 were given'')"
proof -
  have h1: "resolve row_e1 = Inr resolved_e1" by (rule resolve_row_e1)
  have h2: "data (loaded_agent [[CStr ''E1'', CInt 28]]) ''attendance''
      = Some \<lparr>columns = [''Emp'', ''Present''], rows = [[CStr ''E1'', CInt 28]]\<rparr>"
    by (simp add: loaded_agent_def)
  have h3: "str_in (lower (demo_str_of (r_emp_id resolved_e1)))
      (lower (demo_str_values [CStr ''E1'', CInt 28]))"
    by code_simp
  have h4: "columns \<lparr>columns = [''Emp'', ''Present''], rows = [[CStr ''E1'', CInt 28]]\<rparr> \<noteq> []"
    by simp
  have h5: "[CStr ''E1'', CInt 28]
      \<in> set (rows \<lparr>columns = [''Emp'', ''Present''], rows = [[CStr ''E1'', CInt 28]]\<rparr>)"
    by simp
  have c: "calculate_payroll demo_str_of demo_str_values ''May 2025''
        (loaded_agent [[CStr ''E1'', CInt 28]]) row_e1
       = Inl (TypeError ''get() takes from 1 to 2 positional arguments but 3 were given'')"
    by (rule attendance_match_raises_TypeError
        [where str_of = demo_str_of and str_values = demo_str_values, OF h1 h2 h4 h5 h3])
  show ?thesis using h1 h2 h3 c by blast
qed



subsection \<open>Column resolver\<close>

text \<open>
  Claim C7. The column resolver \<open>get\<close> scans the labels of the row in their order and
  returns the value of the first column whose label contains one of the keywords as a
  substring, both taken in lower case; when no label matches it returns the default. On the
  row with columns \<^verbatim>\<open>Emp Code\<close>, \<^verbatim>\<open>Basic+DA\<close>, \<^verbatim>\<open>HRA\<close> the keyword \<^verbatim>\<open>basic\<close>, in any
  capitalisation, yields the value of \<^verbatim>\<open>Basic+DA\<close>.
\<close>

theorem get_first_matching_column:
  "(label_matches kws col \<longleftrightarrow> (\<exists>k \<in> set kws. \<exists>ps ss. lower col = ps @ lower k @ ss))
   \<and> ((\<forall>(c, x) \<in> set pre. \<not> label_matches kws c) \<and> label_matches kws col \<longrightarrow>
        get (pre @ (col, v) # post) kws d = v)
   \<and> ((\<forall>(c, x) \<in> set r. \<not> label_matches kws c) \<longrightarrow> get r kws d = d)
   \<and> get [(''Emp Code'', a), (''Basic+DA'', b), (''HRA'', c)] [''basic''] d = b
   \<and> get [(''Emp Code'', a), (''Basic+DA'', b), (''HRA'', c)] [''BASIC''] d = b
   \<and> get [(''EMP CODE'', a), (''BASIC+da'', b), (''hra'', c)] [''Basic''] d = b"
proof (intro conjI)
  show "label_matches kws col \<longleftrightarrow> (\<exists>k \<in> set kws. \<exists>ps ss. lower col = ps @ lower k @ ss)"
    by (rule label_matches_iff)
  show "(\<forall>(c, x) \<in> set pre. \<not> label_matches kws c) \<and> label_matches kws col \<longrightarrow>
        get (pre @ (col, v) # post) kws d = v"
    by (simp add: get_first)
  show "(\<forall>(c, x) \<in> set r. \<not> label_matches kws c) \<longrightarrow> get r kws d = d"
    by (simp add: get_no_match)
  show "get [(''Emp Code'', a), (''Basic+DA'', b), (''HRA'', c)] [''basic''] d = b"
    by (simp add: label_matches_def lower_def lower_char_def)
  show "get [(''Emp Code'', a), (''Basic+DA'', b), (''HRA'', c)] [''BASIC''] d = b"
    by (simp add: label_matches_def lower_def lower_char_def)
  show "get [(''EMP CODE'', a), (''BASIC+da'', b), (''hra'', c)] [''Basic''] d = b"
    by (simp add: label_matches_def lower_def lower_char_def)
qed

theorem get_first_matching_column_witness:
  "\<not> label_matches [''gross'', ''monthly gross'', ''ctc''] ''Emp Code''
   \<and> \<not> label_matches [''gross'', ''monthly gross'', ''ctc''] ''Name''
   \<and> label_matches [''gross'', ''monthly gross'', ''ctc''] ''Monthly CTC''
   \<and> get ([(''Emp Code'', CStr ''E1''), (''Name'', CStr ''Asha'')]
           @ (''Monthly CTC'', CInt 28000) # [(''Gross'', CInt 5)])
          [''gross'', ''monthly gross'', ''ctc''] (CInt 0) = CInt 28000
   \<and> get [(''Emp Code'', CStr ''E1''), (''Name'', CStr ''Asha'')]
          [''gross'', ''monthly gross'', ''ctc''] (CInt 0) = CInt 0"
proof -
  have h1: "\<forall>(c, x) \<in> set [(''Emp Code'', CStr ''E1''), (''Name'', CStr ''Asha'')].
       \<not> label_matches [''gross'', ''monthly gross'', ''ctc''] c"
    by code_simp
  have h2: "label_matches [''gross'', ''monthly gross'', ''ctc''] ''Monthly CTC''"
    by code_simp
  note t = get_first_matching_column
    [of "[''gross'', ''monthly gross'', ''ctc'']" "''Monthly CTC''"
        "[(''Emp Code'', CStr ''E1''), (''Name'', CStr ''Asha'')]" "CInt 28000"
        "[(''Gross'', CInt 5)]" "CInt 0"
        "[(''Emp Code'', CStr ''E1''), (''Name'', CStr ''Asha'')]"]
  have h1': "\<not> label_matches [''gross'', ''monthly gross'', ''ctc''] ''Emp Code''
      \<and> \<not> label_matches [''gross'', ''monthly gross'', ''ctc''] ''Name''"
    using h1 by simp
  show ?thesis using t h1 h1' h2 by blast
qed

text \<open>
  Claim C3, as stated: a numeric field whose first matching cell is empty or not numeric
  resolves to the supplied default. In the code a text cell that is no number makes
  \<^verbatim>\<open>float()\<close> raise \<^verbatim>\<open>ValueError\<close>, an empty cell (\<^verbatim>\<open>nan\<close>) resolves to \<^verbatim>\<open>nan\<close>, and an
  empty days-in-month cell makes \<^verbatim>\<open>int()\<close> raise \<^verbatim>\<open>ValueError\<close>.
\<close>

theorem resolve_non_numeric_counterexample:
  "resolve [(''Emp Code'', CStr ''E1''), (''Basic'', CStr ''abc'')]
     = Inl (ValueError ''could not convert string to float'')
   \<and> map_sum id r_basic_da (resolve [(''Emp Code'', CStr ''E1''), (''Basic'', CFloat NaN)]) = Inr NaN
   \<and> resolve [(''Emp Code'', CStr ''E1''), (''Days in Month'', CFloat NaN)]
     = Inl (ValueError ''cannot convert float NaN to integer'')"
  by code_simp

text \<open>
  Claim C3, amended. When no column label matches the keywords of a numeric field, the
  field resolves to the supplied default: 0 for basic+DA, HRA, other allowances and TDS, the
  sum of basic+DA, HRA and other allowances for gross, 31 for the days in the month; a row
  none of whose labels matches any of these keywords always resolves. When the first
  matching cell holds a number, the field resolves to \<^verbatim>\<open>float()\<close> of that number, and the days
  in the month to \<^verbatim>\<open>int()\<close> of it (truncated towards zero).
\<close>

theorem resolve_defaults_and_numbers:
  "(unmatched [''basic'', ''basic + da''] emp_row \<and> unmatched [''hra''] emp_row
      \<and> unmatched [''other allow'', ''allowance''] emp_row
      \<and> unmatched [''gross'', ''monthly gross'', ''ctc''] emp_row
      \<and> unmatched [''days in month'', ''month days''] emp_row \<and> unmatched [''tds''] emp_row \<longrightarrow>
      (\<exists>r. resolve emp_row = Inr r \<and> r_basic_da r = Fin 0 \<and> r_hra r = Fin 0
          \<and> r_other_allow r = Fin 0 \<and> r_gross_salary r = Fin 0 \<and> r_days_in_month r = 31
          \<and> r_tds r = Fin 0))
   \<and> (resolve emp_row = Inr r \<longrightarrow>
        (unmatched [''basic'', ''basic + da''] emp_row \<longrightarrow> r_basic_da r = Fin 0)
      \<and> (unmatched [''hra''] emp_row \<longrightarrow> r_hra r = Fin 0)
      \<and> (unmatched [''other allow'', ''allowance''] emp_row \<longrightarrow> r_other_allow r = Fin 0)
      \<and> (unmatched [''gross'', ''monthly gross'', ''ctc''] emp_row \<longrightarrow>
           r_gross_salary r = num_add (num_add (r_basic_da r) (r_hra r)) (r_other_allow r))
      \<and> (unmatched [''days in month'', ''month days''] emp_row \<longrightarrow> r_days_in_month r = 31)
      \<and> (unmatched [''tds''] emp_row \<longrightarrow> r_tds r = Fin 0)
      \<and> py_float (get emp_row [''basic'', ''basic + da''] (CInt 0)) = Inr (r_basic_da r)
      \<and> py_float (get emp_row [''hra''] (CInt 0)) = Inr (r_hra r)
      \<and> py_float (get emp_row [''other allow'', ''allowance''] (CInt 0)) = Inr (r_other_allow r)
      \<and> py_float (get emp_row [''gross'', ''monthly gross'', ''ctc'']
           (CFloat (num_add (num_add (r_basic_da r) (r_hra r)) (r_other_allow r))))
         = Inr (r_gross_salary r)
      \<and> py_int (get emp_row [''days in month'', ''month days''] (CInt 31)) = Inr (r_days_in_month r)
      \<and> py_float (get emp_row [''tds''] (CInt 0)) = Inr (r_tds r))
   \<and> py_float (CInt i) = Inr (Fin (of_int i)) \<and> py_float (CFloat x) = Inr x
   \<and> py_int (CInt i) = Inr i \<and> py_int (CFloat (Fin q)) = Inr (trunc q)"
proof (intro conjI impI)
  assume u: "unmatched [''basic'', ''basic + da''] emp_row \<and> unmatched [''hra''] emp_row
      \<and> unmatched [''other allow'', ''allowance''] emp_row
      \<and> unmatched [''gross'', ''monthly gross'', ''ctc''] emp_row
      \<and> unmatched [''days in month'', ''month days''] emp_row \<and> unmatched [''tds''] emp_row"
  then show "\<exists>r. resolve emp_row = Inr r \<and> r_basic_da r = Fin 0 \<and> r_hra r = Fin 0
          \<and> r_other_allow r = Fin 0 \<and> r_gross_salary r = Fin 0 \<and> r_days_in_month r = 31
          \<and> r_tds r = Fin 0"
    by (simp add: resolve_def rbind_def get_unmatched)
next
  assume r: "resolve emp_row = Inr r"
  then obtain b h o' g dm t where
    b: "py_float (get emp_row [''basic'', ''basic + da''] (CInt 0)) = Inr b" and
    h: "py_float (get emp_row [''hra''] (CInt 0)) = Inr h" and
    o: "py_float (get emp_row [''other allow'', ''allowance''] (CInt 0)) = Inr o'" and
    g: "py_float (get emp_row [''gross'', ''monthly gross'', ''ctc'']
           (CFloat (num_add (num_add b h) o'))) = Inr g" and
    dm: "py_int (get emp_row [''days in month'', ''month days''] (CInt 31)) = Inr dm" and
    t: "py_float (get emp_row [''tds''] (CInt 0)) = Inr t" and
    req: "r_basic_da r = b" "r_hra r = h" "r_other_allow r = o'" "r_gross_salary r = g"
         "r_days_in_month r = dm" "r_tds r = t"
    by (auto simp: resolve_def rbind_def Let_def split: sum.splits)
  show "py_float (get emp_row [''basic'', ''basic + da''] (CInt 0)) = Inr (r_basic_da r)"
    using b req by simp
  show "py_float (get emp_row [''hra''] (CInt 0)) = Inr (r_hra r)"
    using h req by simp
  show "py_float (get emp_row [''other allow'', ''allowance''] (CInt 0)) = Inr (r_other_allow r)"
    using o req by simp
  show "py_float (get emp_row [''gross'', ''monthly gross'', ''ctc'']
           (CFloat (num_add (num_add (r_basic_da r) (r_hra r)) (r_other_allow r))))
         = Inr (r_gross_salary r)"
    using g req by simp
  show "py_int (get emp_row [''days in month'', ''month days''] (CInt 31)) = Inr (r_days_in_month r)"
    using dm req by simp
  show "py_float (get emp_row [''tds''] (CInt 0)) = Inr (r_tds r)"
    using t req by simp
  show "r_basic_da r = Fin 0" if "unmatched [''basic'', ''basic + da''] emp_row"
    using b req that by (simp add: get_unmatched)
  show "r_hra r = Fin 0" if "unmatched [''hra''] emp_row"
    using h req that by (simp add: get_unmatched)
  show "r_other_allow r = Fin 0" if "unmatched [''other allow'', ''allowance''] emp_row"
    using o req that by (simp add: get_unmatched)
  show "r_gross_salary r = num_add (num_add (r_basic_da r) (r_hra r)) (r_other_allow r)"
    if "unmatched [''gross'', ''monthly gross'', ''ctc''] emp_row"
    using g req that by (simp add: get_unmatched)
  show "r_days_in_month r = 31" if "unmatched [''days in month'', ''month days''] emp_row"
    using dm req that by (simp add: get_unmatched)
  show "r_tds r = Fin 0" if "unmatched [''tds''] emp_row"
    using t req that by (simp add: get_unmatched)
qed simp_all

theorem resolve_defaults_and_numbers_witness:
  "unmatched [''basic'', ''basic + da''] row_plain \<and> unmatched [''hra''] row_plain
   \<and> unmatched [''other allow'', ''allowance''] row_plain
   \<and> unmatched [''gross'', ''monthly gross'', ''ctc''] row_plain
   \<and> unmatched [''days in month'', ''month days''] row_plain \<and> unmatched [''tds''] row_plain
   \<and> (\<exists>r. resolve row_plain = Inr r \<and> r_basic_da r = Fin 0 \<and> r_hra r = Fin 0
          \<and> r_other_allow r = Fin 0 \<and> r_gross_salary r = Fin 0 \<and> r_days_in_month r = 31
          \<and> r_tds r = Fin 0)
   \<and> resolve row_nogross = Inr resolved_nogross
   \<and> unmatched [''gross'', ''monthly gross'', ''ctc''] row_nogross
   \<and> unmatched [''days in month'', ''month days''] row_nogross
   \<and> unmatched [''tds''] row_nogross
   \<and> r_gross_salary resolved_nogross
       = num_add (num_add (r_basic_da resolved_nogross) (r_hra resolved_nogross))
           (r_other_allow resolved_nogross)
   \<and> r_days_in_month resolved_nogross = 31 \<and> r_tds resolved_nogross = Fin 0
   \<and> py_float (get row_nogross [''basic'', ''basic + da''] (CInt 0)) = Inr (Fin 20000)"
proof -
  have u1: "unmatched [''basic'', ''basic + da''] row_plain \<and> unmatched [''hra''] row_plain
   \<and> unmatched [''other allow'', ''allowance''] row_plain
   \<and> unmatched [''gross'', ''monthly gross'', ''ctc''] row_plain
   \<and> unmatched [''days in month'', ''month days''] row_plain \<and> unmatched [''tds''] row_plain"
    by code_simp
  have u2: "unmatched [''gross'', ''monthly gross'', ''ctc''] row_nogross
   \<and> unmatched [''days in month'', ''month days''] row_nogross
   \<and> unmatched [''tds''] row_nogross"
    by code_simp
  have b: "r_basic_da resolved_nogross = Fin 20000" by (simp add: resolved_nogross_def)
  note t1 = resolve_defaults_and_numbers [of row_plain resolved_nogross 0 NaN 0]
  note t2 = resolve_defaults_and_numbers [of row_nogross resolved_nogross 0 NaN 0]
  have c1: "\<exists>r. resolve row_plain = Inr r \<and> r_basic_da r = Fin 0 \<and> r_hra r = Fin 0
          \<and> r_other_allow r = Fin 0 \<and> r_gross_salary r = Fin 0 \<and> r_days_in_month r = 31
          \<and> r_tds r = Fin 0"
    using t1 u1 by blast
  have c2: "r_gross_salary resolved_nogross
       = num_add (num_add (r_basic_da resolved_nogross) (r_hra resolved_nogross))
           (r_other_allow resolved_nogross)
     \<and> r_days_in_month resolved_nogross = 31 \<and> r_tds resolved_nogross = Fin 0"
    using t2 u2 resolve_row_nogross by blast
  have c3: "py_float (get row_nogross [''basic'', ''basic + da''] (CInt 0))
         = Inr (r_basic_da resolved_nogross)"
    using t2 resolve_row_nogross by blast
  show ?thesis using u1 u2 c1 c2 c3[unfolded b] resolve_row_nogross by blast
qed

subsection \<open>Workbook loader\<close>






subsection \<open>Policy notes\<close>

text \<open>
  Claim C8, as stated: notes containing \<^verbatim>\<open>pf cap 2000\<close> set the cap to 2000 and change no
  other policy field. Notes that contain it together with \<^verbatim>\<open>pt 250\<close> also change the
  professional tax; in the notes \<^verbatim>\<open>pf cap 20000\<close>, which contain it too, the pattern
  captures all five digits; and in notes where the pattern matches earlier, with 1500,
  \<^verbatim>\<open>re.search\<close> returns that first match and the cap becomes 1500.
\<close>

theorem pf_cap_note_frame_counterexample:
  "str_in ''pf cap 2000'' (lower ''pf cap 2000, pt 250'')
   \<and> pt_amount (policies (init ''payslips'')) = Fin 200
   \<and> pt_amount (policies (update_policy (init ''payslips'') ''pf cap 2000, pt 250'')) = Fin 250
   \<and> str_in ''pf cap 2000'' (lower ''pf cap 20000'')
   \<and> pf_cap (policies (update_policy (init ''payslips'') ''pf cap 20000'')) = Fin 20000
   \<and> str_in ''pf cap 2000'' (lower ''PF cap 1500, later PF cap 2000'')
   \<and> pf_cap (policies (update_policy (init ''payslips'') ''PF cap 1500, later PF cap 2000''))
       = Fin 1500"
proof -
  have a: "str_in ''pf cap 2000'' (lower ''pf cap 2000, pt 250'')
     \<and> str_in ''pf cap 2000'' (lower ''pf cap 20000'')
     \<and> str_in ''pf cap 2000'' (lower ''PF cap 1500, later PF cap 2000'')"
    by code_simp
  have b: "pt_amount (policies (init ''payslips'')) = Fin 200"
    by (simp add: init_def default_policies_def)
  have p: "str_in ''pt 250'' (lower ''pf cap 2000, pt 250'')" by code_simp
  have c: "pt_amount (policies (update_policy (init ''payslips'') ''pf cap 2000, pt 250''))
      = Fin 250"
    unfolding update_policy_def Let_def
    by (simp only: p if_True) (simp split: option.split)
  have s: "search_pf_cap (lower ''pf cap 20000'') = Some ''20000''" by code_simp
  have d: "pf_cap (policies (update_policy (init ''payslips'') ''pf cap 20000'')) = Fin 20000"
    unfolding update_policy_def Let_def
    by (simp only: s option.case digits_val_20000) simp
  have s2: "search_pf_cap (lower ''PF cap 1500, later PF cap 2000'') = Some ''1500''"
    by code_simp
  have e: "pf_cap (policies (update_policy (init ''payslips'') ''PF cap 1500, later PF cap 2000''))
      = Fin 1500"
    unfolding update_policy_def Let_def
    by (simp only: s2 option.case digits_val_1500) simp
  show ?thesis using a b c d e by blast
qed

text \<open>
  Claim C8, amended. If the lower-cased notes contain \<^verbatim>\<open>pf cap 2000\<close> not followed by a
  further digit, the pattern \<^verbatim>\<open>pf cap\s*(\d+)\<close> matches at no earlier position in them, and
  they contain neither \<^verbatim>\<open>encash\<close> nor \<^verbatim>\<open>pt 250\<close>, then \<^verbatim>\<open>update_policy\<close> sets \<open>pf_cap\<close> to
  2000 and leaves every other policy field, and the rest of the agent's state, unchanged.
\<close>

theorem pf_cap_note_frame:
  assumes "lower policy_text = pre @ ''pf cap 2000'' @ post"
    and "\<forall>i < length pre. match_pf_cap (drop i (lower policy_text)) = None"
    and "takeWhile is_digit post = []"
    and "\<not> str_in ''encash'' (lower policy_text)"
    and "\<not> str_in ''pt 250'' (lower policy_text)"
  shows "update_policy st policy_text = st\<lparr>policies := (policies st)\<lparr>pf_cap := Fin 2000\<rparr>\<rparr>
    \<and> pf_cap (policies (update_policy st policy_text)) = Fin 2000
    \<and> pf_rate (policies (update_policy st policy_text)) = pf_rate (policies st)
    \<and> esi_employee_rate (policies (update_policy st policy_text)) = esi_employee_rate (policies st)
    \<and> esi_threshold (policies (update_policy st policy_text)) = esi_threshold (policies st)
    \<and> pt_amount (policies (update_policy st policy_text)) = pt_amount (policies st)
    \<and> leave_encashment (policies (update_policy st policy_text)) = leave_encashment (policies st)
    \<and> encash_max_days (policies (update_policy st policy_text)) = encash_max_days (policies st)
    \<and> payslip_dir (update_policy st policy_text) = payslip_dir st
    \<and> data (update_policy st policy_text) = data st"
proof -
  have u: "\<forall>i < length pre. match_pf_cap (drop i (pre @ ''pf cap 2000'' @ post)) = None"
    using assms(2) by (simp only: assms(1))
  have s: "search_pf_cap (lower policy_text) = Some ''2000''"
    using search_pf_cap_2000 [OF u assms(3)] by (simp only: assms(1))
  have e: "\<not> str_in ''leave encashment'' (lower policy_text)"
    using assms(4) by (rule no_leave_encashment)
  have l: "\<not> list_ex (\<lambda>w. str_in w (lower policy_text)) [''encash'', ''leave encashment'']"
    using e assms(4) by simp
  have "update_policy st policy_text = st\<lparr>policies := (policies st)\<lparr>pf_cap := Fin 2000\<rparr>\<rparr>"
    unfolding update_policy_def Let_def
    by (simp only: l s assms(5) if_False option.case digits_val_2000) simp
  then show ?thesis by simp
qed

theorem pf_cap_note_frame_witness:
  "lower ''Revised: PF Cap 2000 from April'' = ''revised: '' @ ''pf cap 2000'' @ '' from april''
   \<and> list_all (\<lambda>i. match_pf_cap (drop i (lower ''Revised: PF Cap 2000 from April'')) = None)
        [0 ..< length ''revised: '']
   \<and> takeWhile is_digit '' from april'' = []
   \<and> \<not> str_in ''encash'' (lower ''Revised: PF Cap 2000 from April'')
   \<and> \<not> str_in ''pt 250'' (lower ''Revised: PF Cap 2000 from April'')
   \<and> update_policy (init ''payslips'') ''Revised: PF Cap 2000 from April''
       = (init ''payslips'')\<lparr>policies := default_policies\<lparr>pf_cap := Fin 2000\<rparr>\<rparr>"
proof -
  have h1: "lower ''Revised: PF Cap 2000 from April''
      = ''revised: '' @ ''pf cap 2000'' @ '' from april''" by code_simp
  have h2l: "list_all (\<lambda>i. match_pf_cap (drop i (lower ''Revised: PF Cap 2000 from April'')) = None)
        [0 ..< length ''revised: '']" by code_simp
  then have h2: "\<forall>i < length ''revised: ''.
      match_pf_cap (drop i (lower ''Revised: PF Cap 2000 from April'')) = None"
    unfolding list_all_iff by (metis atLeastLessThan_iff set_upt zero_le)
  have h3: "takeWhile is_digit '' from april'' = []" by code_simp
  have h4: "\<not> str_in ''encash'' (lower ''Revised: PF Cap 2000 from April'')" by code_simp
  have h5: "\<not> str_in ''pt 250'' (lower ''Revised: PF Cap 2000 from April'')" by code_simp
  have p: "policies (init ''payslips'') = default_policies" by (simp add: init_def)
  have c: "update_policy (init ''payslips'') ''Revised: PF Cap 2000 from April''
       = (init ''payslips'')\<lparr>policies := (policies (init ''payslips''))\<lparr>pf_cap := Fin 2000\<rparr>\<rparr>"
    using pf_cap_note_frame [OF h1 h2 h3 h4 h5, of "init ''payslips''"] by blast
  show ?thesis using h1 h2l h3 h4 h5 c[unfolded p] by blast
qed

subsection \<open>Rendering\<close>




subsection \<open>Computing before a load\<close>

text \<open>
  Claim C10. On an agent that has loaded nothing, \<^verbatim>\<open>generate_single_payslip\<close> and
  \<^verbatim>\<open>generate_all_payslips\<close> raise \<^verbatim>\<open>KeyError\<close> for the key \<^verbatim>\<open>salary\<close>, and \<^verbatim>\<open>calculate_payroll\<close>
  on a row whose fields resolve raises \<^verbatim>\<open>KeyError\<close> for the key \<^verbatim>\<open>attendance\<close>; no file is
  written. A load that fails leaves such an agent as it was, and a load that succeeds stores
  both tables.
\<close>

theorem compute_before_load_raises_KeyError:
  "generate_single_payslip str_of str_values now (init dir) fs ident
     = (Inl (KeyError ''salary''), fs)
   \<and> generate_all_payslips str_of str_values now (init dir) fs = (Inl (KeyError ''salary''), fs)
   \<and> (\<forall>r. resolve emp_row = Inr r \<longrightarrow>
        calculate_payroll str_of str_values now (init dir) emp_row = Inl (KeyError ''attendance''))
   \<and> (\<not> fst (load_uploaded_excel (init dir) xls) \<longrightarrow>
        snd (load_uploaded_excel (init dir) xls) = init dir)
   \<and> (fst (load_uploaded_excel st xls) \<longrightarrow>
        data (snd (load_uploaded_excel st xls)) ''salary'' \<noteq> None \<and>
        data (snd (load_uploaded_excel st xls)) ''attendance'' \<noteq> None)"
proof (intro conjI allI impI)
  show "generate_single_payslip str_of str_values now (init dir) fs ident
     = (Inl (KeyError ''salary''), fs)"
    by (simp add: generate_single_payslip_def init_def)
  show "generate_all_payslips str_of str_values now (init dir) fs = (Inl (KeyError ''salary''), fs)"
    by (simp add: generate_all_payslips_def init_def)
  show "calculate_payroll str_of str_values now (init dir) emp_row = Inl (KeyError ''attendance'')"
    if "resolve emp_row = Inr r" for r
    using that by (simp add: calculate_payroll_def rbind_def read_attendance_def init_def)
  show "snd (load_uploaded_excel (init dir) xls) = init dir"
    if "\<not> fst (load_uploaded_excel (init dir) xls)"
    using that by (rule load_failure_state)
  show "data (snd (load_uploaded_excel st xls)) ''salary'' \<noteq> None"
    if "fst (load_uploaded_excel st xls)"
    using load_success_keys [OF that] by simp
  show "data (snd (load_uploaded_excel st xls)) ''attendance'' \<noteq> None"
    if "fst (load_uploaded_excel st xls)"
    using load_success_keys [OF that] by simp
qed

theorem compute_before_load_raises_KeyError_witness:
  "resolve row_e1 = Inr resolved_e1
   \<and> \<not> fst (load_uploaded_excel (init ''payslips'') None)
   \<and> fst (load_uploaded_excel (init ''payslips'') (Some [wb_salary_new]))
   \<and> generate_single_payslip demo_str_of demo_str_values ''May 2025'' (init ''payslips'')
        Map.empty ''E1'' = (Inl (KeyError ''salary''), Map.empty)
   \<and> generate_all_payslips demo_str_of demo_str_values ''May 2025'' (init ''payslips'') Map.empty
       = (Inl (KeyError ''salary''), Map.empty)
   \<and> calculate_payroll demo_str_of demo_str_values ''May 2025'' (init ''payslips'') row_e1
       = Inl (KeyError ''attendance'')
   \<and> snd (load_uploaded_excel (init ''payslips'') None) = init ''payslips''
   \<and> data (snd (load_uploaded_excel (init ''payslips'') (Some [wb_salary_new]))) ''salary'' \<noteq> None
   \<and> data (snd (load_uploaded_excel (init ''payslips'') (Some [wb_salary_new]))) ''attendance''
       \<noteq> None"
proof -
  have h1: "resolve row_e1 = Inr resolved_e1" by (rule resolve_row_e1)
  have h2: "\<not> fst (load_uploaded_excel (init ''payslips'') None)"
    by (simp add: load_uploaded_excel_def load_body_def)
  have "is_salary_sheet wb_salary_new" by code_simp
  then have h3: "fst (load_uploaded_excel (init ''payslips'') (Some [wb_salary_new]))"
    by (simp add: load_uploaded_excel_def load_body_def)
  note t1 = compute_before_load_raises_KeyError
    [of demo_str_of demo_str_values "''May 2025''" "''payslips''" Map.empty "''E1''" row_e1 None
        "init ''payslips''"]
  note t2 = compute_before_load_raises_KeyError
    [of demo_str_of demo_str_values "''May 2025''" "''payslips''" Map.empty "''E1''" row_e1
        "Some [wb_salary_new]" "init ''payslips''"]
  show ?thesis using t1 t2 h1 h2 h3 by blast
qed

end
